theory Spec2Isabelle
  imports Main "HOL-Library.AList"
begin

section \<open>The URL service (urlService.js) as a shallow embedding\<close>

text \<open>
  The service keeps two module-level \<^verbatim>\<open>Map\<close>s, \<^verbatim>\<open>urlStore\<close> (id to entry) and
  \<^verbatim>\<open>shortcodeToUrl\<close> (shortcode to id). Every method is modelled as a function that takes
  the two maps as a record and returns them updated. What the methods read from outside
  is an explicit argument: the clock (\<^verbatim>\<open>moment()\<close>, in milliseconds since the epoch), the
  random strings of \<^verbatim>\<open>nanoid\<close>, and the platform's URL parser.

  An ISO-8601 string produced by \<^verbatim>\<open>toISOString\<close> is represented by the millisecond
  instant it denotes (the two determine each other, and \<^verbatim>\<open>isAfter\<close> parses the string back
  to that instant). Numbers are the finite integral ones, unbounded; \<^verbatim>\<open>NaN\<close> is a value
  of its own. Strings are lists of 8-bit characters.
\<close>

subsection \<open>JavaScript values of the loosely typed arguments\<close>

datatype jsval = JUndefined | JNull | JBool bool | JNum int | JNaN | JStr string

text \<open>Truthiness, as \<^verbatim>\<open>if (v)\<close>, \<^verbatim>\<open>!v\<close> and \<^verbatim>\<open>v && ...\<close> test it.\<close>

fun truthy :: "jsval \<Rightarrow> bool" where
  "truthy JUndefined = False"
| "truthy JNull = False"
| "truthy (JBool b) = b"
| "truthy (JNum n) = (n \<noteq> 0)"
| "truthy JNaN = False"
| "truthy (JStr s) = (s \<noteq> [])"

text \<open>\<^verbatim>\<open>typeof v === 'number'\<close> and \<^verbatim>\<open>typeof v === 'string'\<close>.\<close>

fun typeof_number :: "jsval \<Rightarrow> bool" where
  "typeof_number (JNum n) = True"
| "typeof_number JNaN = True"
| "typeof_number v = False"

fun typeof_string :: "jsval \<Rightarrow> bool" where
  "typeof_string (JStr s) = True"
| "typeof_string v = False"

text \<open>
  \<^verbatim>\<open>v <= 0\<close>. The source evaluates it only after \<^verbatim>\<open>typeof v !== 'number'\<close> was false,
  so only the number cases are ever read; every comparison with \<^verbatim>\<open>NaN\<close> is false.
\<close>

fun le_zero :: "jsval \<Rightarrow> bool" where
  "le_zero (JNum n) = (n \<le> 0)"
| "le_zero v = False"

text \<open>A default parameter \<^verbatim>\<open>p = d\<close> takes its default exactly when the argument is \<^verbatim>\<open>undefined\<close>.\<close>

definition default_param :: "jsval \<Rightarrow> jsval \<Rightarrow> jsval" where
  "default_param v d = (if v = JUndefined then d else v)"

text \<open>The string held by a value that has passed \<^verbatim>\<open>typeof v === 'string'\<close>.\<close>

fun the_string :: "jsval \<Rightarrow> string" where
  "the_string (JStr s) = s"
| "the_string v = []"

text \<open>\<^verbatim>\<open>x || d\<close> on an optional string: \<^verbatim>\<open>null\<close>, \<^verbatim>\<open>undefined\<close> and \<^verbatim>\<open>''\<close> are falsy.\<close>

fun or_default :: "string option \<Rightarrow> string \<Rightarrow> string" where
  "or_default None d = d"
| "or_default (Some x) d = (if x = [] then d else x)"

subsection \<open>The Map operations the service uses\<close>

text \<open>
  A JavaScript \<^verbatim>\<open>Map\<close> keeps its keys in insertion order; \<^verbatim>\<open>set\<close> on a key that is
  present replaces the value where it stands, and appends otherwise.
\<close>

primrec Map_set :: "'k \<Rightarrow> 'v \<Rightarrow> ('k \<times> 'v) list \<Rightarrow> ('k \<times> 'v) list" where
  "Map_set k v [] = [(k, v)]"
| "Map_set k v (p # ps) = (if fst p = k then (k, v) # ps else p # Map_set k v ps)"

definition Map_get :: "'k \<Rightarrow> ('k \<times> 'v) list \<Rightarrow> 'v option" where
  "Map_get k m = map_of m k"

definition Map_has :: "'k \<Rightarrow> ('k \<times> 'v) list \<Rightarrow> bool" where
  "Map_has k m = (map_of m k \<noteq> None)"

definition Map_values :: "('k \<times> 'v) list \<Rightarrow> 'v list" where
  "Map_values m = map snd m"

subsection \<open>moment objects\<close>

text \<open>
  A moment is a mutable object. The heap below holds the instant of each moment object
  (the address is the index). \<^verbatim>\<open>add\<close> changes the receiver in place and returns the
  receiver itself, which is how the moment library documents it.
\<close>

type_synonym moment_heap = "int list"

definition moment_now :: "int \<Rightarrow> moment_heap \<Rightarrow> nat \<times> moment_heap" where
  "moment_now now h = (length h, h @ [now])"

definition moment_add_minutes :: "nat \<Rightarrow> int \<Rightarrow> moment_heap \<Rightarrow> nat \<times> moment_heap" where
  "moment_add_minutes m n h = (m, h[m := h ! m + n * 60000])"

definition toISOString :: "nat \<Rightarrow> moment_heap \<Rightarrow> int" where
  "toISOString m h = h ! m"

text \<open>\<^verbatim>\<open>moment().isAfter(t)\<close>, with the clock reading as first argument: strictly later.\<close>

definition isAfter :: "int \<Rightarrow> int \<Rightarrow> bool" where
  "isAfter now t = (t < now)"

text \<open>
  The number of minutes \<^verbatim>\<open>add(validity, 'minutes')\<close> adds. Besides numbers, only the
  falsy values \<^verbatim>\<open>null\<close>, \<^verbatim>\<open>false\<close>, \<^verbatim>\<open>''\<close> and \<^verbatim>\<open>NaN\<close> pass the validity check of
  \<^verbatim>\<open>createShortURL\<close>; moment reads them with unary plus as 0 (and adds nothing for NaN).
\<close>

fun add_amount :: "jsval \<Rightarrow> int" where
  "add_amount (JNum n) = n"
| "add_amount v = 0"

subsection \<open>nanoid\<close>

text \<open>
  \<^verbatim>\<open>nanoid(n)\<close> returns \<open>n\<close> characters of its URL-safe alphabet \<^verbatim>\<open>A-Za-z0-9_-\<close>
  (21 characters when called without argument). The draws are arguments of the model;
  this predicate says what a draw can be.
\<close>

definition isAlnum :: "char \<Rightarrow> bool" where
  "isAlnum c = (let n = (of_char c :: nat) in
     (48 \<le> n \<and> n \<le> 57) \<or> (65 \<le> n \<and> n \<le> 90) \<or> (97 \<le> n \<and> n \<le> 122))"

definition urlAlphabet :: "char \<Rightarrow> bool" where
  "urlAlphabet c = (isAlnum c \<or> c = CHR ''_'' \<or> c = CHR ''-'')"

definition nanoid_string :: "nat \<Rightarrow> string \<Rightarrow> bool" where
  "nanoid_string n s = (length s = n \<and> list_all urlAlphabet s)"

subsection \<open>Data\<close>

record click =
  timestamp :: int
  referrer :: string
  ip :: string
  location :: string

record urlEntry =
  id_entry :: string
  originalURL :: string
  shortcode :: string
  createdAt :: int
  expiryTime :: int
  clicks :: "click list"
  totalClicks :: int

record store =
  urlStore :: "(string \<times> urlEntry) list"
  shortcodeToUrl :: "(string \<times> string) list"

definition empty_store :: store where
  "empty_store = \<lparr>urlStore = [], shortcodeToUrl = []\<rparr>"

text \<open>What \<^verbatim>\<open>createShortURL\<close> returns.\<close>

record created =
  shortLink :: string
  expiry :: int

text \<open>The statistics object of \<^verbatim>\<open>getURLStatistics\<close> and \<^verbatim>\<open>getAllURLs\<close>, and its click view.\<close>

record click_view =
  view_timestamp :: int
  source :: string
  view_location :: string

record statistics =
  stat_shortLink :: string
  stat_originalURL :: string
  stat_createdAt :: int
  stat_expiryTime :: int
  stat_totalClicks :: int
  stat_clicks :: "click_view list"

text \<open>
  The errors \<^verbatim>\<open>createShortURL\<close> throws, named by kind:
  \<^verbatim>\<open>'Invalid URL format'\<close>, \<^verbatim>\<open>'Validity must be a positive integer'\<close>,
  \<^verbatim>\<open>'Custom shortcode must be alphanumeric and 3-20 characters long'\<close>,
  \<^verbatim>\<open>'Custom shortcode already exists'\<close>, \<^verbatim>\<open>'Unable to generate unique shortcode'\<close>.
\<close>

datatype error =
  InvalidURL | InvalidValidity | InvalidShortcode | ShortcodeCollision | GenerationExhausted

subsection \<open>Validation\<close>

text \<open>
  \<^verbatim>\<open>new URL(url)\<close> is the platform's parser: it throws (\<open>None\<close>) or yields a URL object,
  of which only \<^verbatim>\<open>protocol\<close> is read. The parser is an argument.
\<close>

type_synonym url_parser = "string \<Rightarrow> string option"

definition validateURL :: "url_parser \<Rightarrow> string \<Rightarrow> bool" where
  "validateURL parse url =
     (case parse url of
        None \<Rightarrow> False
      | Some protocol \<Rightarrow> protocol = ''http:'' \<or> protocol = ''https:'')"

text \<open>\<^verbatim>\<open>/^[a-zA-Z0-9]{3,20}$/.test(s)\<close>.\<close>

definition shortcodeRegex :: "string \<Rightarrow> bool" where
  "shortcodeRegex s = (3 \<le> length s \<and> length s \<le> 20 \<and> list_all isAlnum s)"

definition validateShortcode :: "jsval \<Rightarrow> bool" where
  "validateShortcode code =
     (if \<not> truthy code \<or> \<not> typeof_string code then False
      else shortcodeRegex (the_string code))"

subsection \<open>generateShortcode\<close>

definition maxAttempts :: nat where
  "maxAttempts = 10"

text \<open>
  The do-while loop; \<open>nanoid8 i\<close> is the result of the \<open>i\<close>-th call of \<^verbatim>\<open>nanoid(8)\<close>
  (counting from 0) made by this call of \<^verbatim>\<open>generateShortcode\<close>.
\<close>

function generateShortcode_loop ::
  "(nat \<Rightarrow> string) \<Rightarrow> (string \<times> string) list \<Rightarrow> nat \<Rightarrow> error + string" where
  "generateShortcode_loop nanoid8 index attempts =
     (if attempts + 1 > maxAttempts then Inl GenerationExhausted
      else if Map_has (nanoid8 attempts) index
           then generateShortcode_loop nanoid8 index (attempts + 1)
           else Inr (nanoid8 attempts))"
  by pat_completeness auto
termination
  by (relation "measure (\<lambda>(nanoid8, index, attempts). maxAttempts + 1 - attempts)")
     (auto simp: maxAttempts_def)

declare generateShortcode_loop.simps [simp del]

definition generateShortcode :: "(nat \<Rightarrow> string) \<Rightarrow> (string \<times> string) list \<Rightarrow> error + string" where
  "generateShortcode nanoid8 index = generateShortcode_loop nanoid8 index 0"

subsection \<open>createShortURL\<close>

text \<open>
  The result pairs what the call returns or throws with the two maps as the call leaves
  them. \<open>nanoid21\<close> is the result of the call \<^verbatim>\<open>nanoid()\<close> that makes the entry's id.
\<close>

definition createShortURL ::
  "url_parser \<Rightarrow> (nat \<Rightarrow> string) \<Rightarrow> string \<Rightarrow> int \<Rightarrow> store \<Rightarrow>
   string \<Rightarrow> jsval \<Rightarrow> jsval \<Rightarrow> (error + created) \<times> store" where
  "createShortURL parse nanoid8 nanoid21 now s url validity0 customShortcode0 =
     (let validity = default_param validity0 (JNum 30);
          customShortcode = default_param customShortcode0 JNull
      in if \<not> validateURL parse url then (Inl InvalidURL, s)
         else if truthy validity \<and> (\<not> typeof_number validity \<or> le_zero validity)
         then (Inl InvalidValidity, s)
         else
           case (if truthy customShortcode
                 then (if \<not> validateShortcode customShortcode then Inl InvalidShortcode
                       else if Map_has (the_string customShortcode) (shortcodeToUrl s)
                       then Inl ShortcodeCollision
                       else Inr (the_string customShortcode))
                 else generateShortcode nanoid8 (shortcodeToUrl s)) of
             Inl e \<Rightarrow> (Inl e, s)
           | Inr code \<Rightarrow>
               (let (createdAt_m, h1) = moment_now now [];
                    (expiryTime_m, h2) = moment_add_minutes createdAt_m (add_amount validity) h1;
                    urlEntry = \<lparr>id_entry = nanoid21,
                                originalURL = url,
                                shortcode = code,
                                createdAt = toISOString createdAt_m h2,
                                expiryTime = toISOString expiryTime_m h2,
                                clicks = [],
                                totalClicks = 0\<rparr>;
                    s1 = s\<lparr>urlStore := Map_set (id_entry urlEntry) urlEntry (urlStore s)\<rparr>;
                    s2 = s1\<lparr>shortcodeToUrl := Map_set code (id_entry urlEntry) (shortcodeToUrl s1)\<rparr>
                in (Inr \<lparr>shortLink = ''http://localhost:5000/'' @ code,
                         expiry = toISOString expiryTime_m h2\<rparr>, s2)))"

subsection \<open>Lookups\<close>

text \<open>\<open>None\<close> is the \<^verbatim>\<open>null\<close> the method returns.\<close>

definition getURLByShortcode :: "int \<Rightarrow> store \<Rightarrow> string \<Rightarrow> urlEntry option" where
  "getURLByShortcode now s code =
     (case Map_get code (shortcodeToUrl s) of
        None \<Rightarrow> None
      | Some urlId \<Rightarrow>
          if urlId = [] then None
          else (case Map_get urlId (urlStore s) of
                  None \<Rightarrow> None
                | Some urlEntry \<Rightarrow>
                    if isAfter now (expiryTime urlEntry) then None else Some urlEntry))"

definition view_of :: "click \<Rightarrow> click_view" where
  "view_of c = \<lparr>view_timestamp = timestamp c, source = referrer c, view_location = location c\<rparr>"

definition getURLStatistics :: "int \<Rightarrow> store \<Rightarrow> string \<Rightarrow> statistics option" where
  "getURLStatistics now s code =
     (case getURLByShortcode now s code of
        None \<Rightarrow> None
      | Some urlEntry \<Rightarrow>
          Some \<lparr>stat_shortLink = ''http://localhost:5000/'' @ code,
                stat_originalURL = originalURL urlEntry,
                stat_createdAt = createdAt urlEntry,
                stat_expiryTime = expiryTime urlEntry,
                stat_totalClicks = totalClicks urlEntry,
                stat_clicks = map view_of (clicks urlEntry)\<rparr>)"


subsection \<open>recordClick\<close>

text \<open>
  The method reads the clock twice: \<open>now\<close> for the expiry test and \<open>now'\<close> for the
  timestamp of the click. The entry is an object held by \<^verbatim>\<open>urlStore\<close> under its id and by
  nothing else, so the two in-place mutations replace the value at that key. The body is
  wrapped in a \<^verbatim>\<open>catch\<close> that returns \<^verbatim>\<open>false\<close>, so every path yields a boolean.
\<close>

definition recordClick ::
  "int \<Rightarrow> int \<Rightarrow> store \<Rightarrow> string \<Rightarrow> string option \<Rightarrow> string option \<Rightarrow> bool \<times> store" where
  "recordClick now now' s code ref addr =
     (case Map_get code (shortcodeToUrl s) of
        None \<Rightarrow> (False, s)
      | Some urlId \<Rightarrow>
          if urlId = [] then (False, s)
          else (case Map_get urlId (urlStore s) of
                  None \<Rightarrow> (False, s)
                | Some urlEntry \<Rightarrow>
                    if isAfter now (expiryTime urlEntry) then (False, s)
                    else
                      (let clickData = \<lparr>timestamp = now',
                                         referrer = or_default ref ''direct'',
                                         ip = or_default addr ''unknown'',
                                         location = ''Unknown''\<rparr>;
                           e1 = urlEntry\<lparr>clicks := clicks urlEntry @ [clickData]\<rparr>;
                           e2 = e1\<lparr>totalClicks := totalClicks e1 + 1\<rparr>
                       in (True, s\<lparr>urlStore := Map_set urlId e2 (urlStore s)\<rparr>))))"

subsection \<open>The states the service can be in\<close>

text \<open>
  Both maps start empty and change only through \<^verbatim>\<open>createShortURL\<close> and \<^verbatim>\<open>recordClick\<close>,
  called with any arguments at any time, with draws that \<^verbatim>\<open>nanoid\<close> can produce.
  \<open>reachable s es\<close>: the service can be in state \<open>s\<close>, having created the entries
  \<open>es\<close> (each as it was when its call returned), oldest first.
\<close>

inductive reachable :: "store \<Rightarrow> urlEntry list \<Rightarrow> bool" where
  init: "reachable empty_store []"
| created: "reachable s es \<Longrightarrow> \<forall>i. nanoid_string 8 (nanoid8 i) \<Longrightarrow> nanoid_string 21 nanoid21 \<Longrightarrow>
     createShortURL parse nanoid8 nanoid21 now s url validity customShortcode = (Inr r, s') \<Longrightarrow>
     Map_get nanoid21 (urlStore s') = Some e \<Longrightarrow>
     reachable s' (es @ [e])"
| failed: "reachable s es \<Longrightarrow>
     createShortURL parse nanoid8 nanoid21 now s url validity customShortcode = (Inl err, s') \<Longrightarrow>
     reachable s' es"
| clicked: "reachable s es \<Longrightarrow> recordClick now now' s code ref addr = (b, s') \<Longrightarrow>
     reachable s' es"

text \<open>The validity check of \<^verbatim>\<open>createShortURL\<close> lets the value through.\<close>

definition validity_passes :: "jsval \<Rightarrow> bool" where
  "validity_passes validity0 =
     (let validity = default_param validity0 (JNum 30)
      in \<not> (truthy validity \<and> (\<not> typeof_number validity \<or> le_zero validity)))"

text \<open>What the two maps are kept to satisfy.\<close>

definition store_inv :: "store \<Rightarrow> bool" where
  "store_inv s =
     ((\<forall>i e. Map_get i (urlStore s) = Some e \<longrightarrow> Map_has (shortcode e) (shortcodeToUrl s)) \<and>
      (\<forall>i j e f. Map_get i (urlStore s) = Some e \<longrightarrow> Map_get j (urlStore s) = Some f \<longrightarrow>
          shortcode e = shortcode f \<longrightarrow> i = j) \<and>
      (\<forall>c i. Map_get c (shortcodeToUrl s) = Some i \<longrightarrow>
          c \<noteq> [] \<and> i \<noteq> [] \<and> Map_has i (urlStore s)))"

subsection \<open>Sample inputs\<close>

text \<open>
  A stand-in for the platform's parser on the strings used in the examples below:
  \<^verbatim>\<open>new URL\<close> gives these protocols on them, and throws on \<^verbatim>\<open>'not-a-url'\<close>.
\<close>

definition sample_parse :: url_parser where
  "sample_parse u =
     (if take 8 u = ''https://'' then Some ''https:''
      else if take 7 u = ''http://'' then Some ''http:''
      else None)"

definition sample_draws :: "nat \<Rightarrow> string" where
  "sample_draws i = ''ab_cd-ef''"

definition id_one :: string where
  "id_one = ''V1StGXR8_Z5jdHi6B-myT''"

definition id_two :: string where
  "id_two = ''Uakgb_J5m9g-0JDMbcJqL''"

definition id_three :: string where
  "id_three = ''k3Zq0_pW7xYb-2LmNfR9t''"

text \<open>
  The service after one call \<^verbatim>\<open>createShortURL('https://example.com/page')\<close> at instant 1000,
  where \<^verbatim>\<open>nanoid(8)\<close> drew \<^verbatim>\<open>ab_cd-ef\<close>; and after a second call at instant 2000 with
  the custom shortcode \<^verbatim>\<open>abc123\<close> and a validity of one minute.
\<close>

definition store_one :: store where
  "store_one = snd (createShortURL sample_parse sample_draws id_one 1000
     empty_store ''https://example.com/page'' JUndefined JUndefined)"

definition store_two :: store where
  "store_two = snd (createShortURL sample_parse sample_draws id_two 2000
     store_one ''http://x.com'' (JNum 1) (JStr ''abc123''))"

definition entry_one :: urlEntry where
  "entry_one = \<lparr>id_entry = id_one, originalURL = ''https://example.com/page'',
     shortcode = ''ab_cd-ef'', createdAt = 1801000, expiryTime = 1801000,
     clicks = [], totalClicks = 0\<rparr>"

definition entry_two :: urlEntry where
  "entry_two = \<lparr>id_entry = id_two, originalURL = ''http://x.com'',
     shortcode = ''abc123'', createdAt = 62000, expiryTime = 62000,
     clicks = [], totalClicks = 0\<rparr>"

text \<open>
  The service after a visit of \<^verbatim>\<open>ab_cd-ef\<close> at instant 100000 that came from
  \<^verbatim>\<open>https://google.com\<close>, the address of the visitor being unknown.
\<close>

definition store_clicked :: store where
  "store_clicked = snd (recordClick 100000 100001 store_two ''ab_cd-ef''
     (Some ''https://google.com'') None)"

section \<open>Facts about the Map operations and the generator\<close>

lemma Map_set_update: "Map_set k v al = AList.update k v al"
  by (induction al) auto

lemma map_of_Map_set: "map_of (Map_set k v al) = (map_of al)(k \<mapsto> v)"
  by (simp add: Map_set_update update_conv')

lemma Map_get_Map_set: "Map_get k' (Map_set k v al) = (if k' = k then Some v else Map_get k' al)"
  by (simp add: Map_get_def map_of_Map_set)

lemma Map_has_Map_set: "Map_has k' (Map_set k v al) = (k' = k \<or> Map_has k' al)"
  by (simp add: Map_has_def map_of_Map_set)

lemma Map_has_get: "Map_has k al = (Map_get k al \<noteq> None)"
  by (simp add: Map_has_def Map_get_def)

lemma keys_Map_set_present:
  "Map_get k al = Some v \<Longrightarrow> map fst (Map_set k v' al) = map fst al"
  unfolding Map_get_def by (induction al) (auto split: if_splits)


lemma typeof_string_the_string: "typeof_string v \<Longrightarrow> v = JStr (the_string v)"
  by (cases v) simp_all

lemma isAlnum_urlAlphabet: "list_all isAlnum x \<Longrightarrow> list_all urlAlphabet x"
  by (induction x) (auto simp: urlAlphabet_def)

lemma generateShortcode_loop_Inr:
  "generateShortcode_loop nanoid8 index attempts = Inr code \<Longrightarrow>
     \<not> Map_has code index \<and> (\<exists>i<maxAttempts. code = nanoid8 i)"
proof (induction nanoid8 index attempts rule: generateShortcode_loop.induct)
  case (1 nanoid8 index attempts)
  show ?case
  proof (cases "attempts + 1 > maxAttempts")
    case True
    with "1.prems" show ?thesis by (simp add: generateShortcode_loop.simps)
  next
    case False
    note small = this
    show ?thesis
    proof (cases "Map_has (nanoid8 attempts) index")
      case True
      with small "1.prems" have "generateShortcode_loop nanoid8 index (attempts + 1) = Inr code"
        by (simp add: generateShortcode_loop.simps [of nanoid8 index attempts])
      with "1.IH" small True show ?thesis by simp
    next
      case False
      with small "1.prems" have "code = nanoid8 attempts"
        by (simp add: generateShortcode_loop.simps [of nanoid8 index attempts])
      moreover from small have "attempts < maxAttempts" by simp
      ultimately show ?thesis using False by blast
    qed
  qed
qed

lemma generateShortcode_loop_Inl:
  "generateShortcode_loop nanoid8 index attempts = Inl e \<Longrightarrow> e = GenerationExhausted"
proof (induction nanoid8 index attempts rule: generateShortcode_loop.induct)
  case (1 nanoid8 index attempts)
  then show ?case
    by (simp add: generateShortcode_loop.simps [of nanoid8 index attempts] split: if_splits)
qed

section \<open>What a call of createShortURL does\<close>

text \<open>A successful call: the code it chose, what it returns and the maps it leaves.\<close>

lemma createShortURL_Inr:
  assumes "createShortURL parse nanoid8 nanoid21 now s url validity0 custom0 = (Inr r, s')"
  shows "\<exists>code. \<not> Map_has code (shortcodeToUrl s)
          \<and> validateURL parse url \<and> validity_passes validity0
          \<and> (if truthy (default_param custom0 JNull)
              then default_param custom0 JNull = JStr code \<and> shortcodeRegex code
              else \<exists>i<maxAttempts. code = nanoid8 i)
          \<and> r = \<lparr>shortLink = ''http://localhost:5000/'' @ code,
                  expiry = now + add_amount (default_param validity0 (JNum 30)) * 60000\<rparr>
          \<and> s' = \<lparr>urlStore = Map_set nanoid21
                     \<lparr>id_entry = nanoid21, originalURL = url, shortcode = code,
                      createdAt = now + add_amount (default_param validity0 (JNum 30)) * 60000,
                      expiryTime = now + add_amount (default_param validity0 (JNum 30)) * 60000,
                      clicks = [], totalClicks = 0\<rparr> (urlStore s),
                   shortcodeToUrl = Map_set code nanoid21 (shortcodeToUrl s)\<rparr>"
  using assms
  apply (simp add: createShortURL_def Let_def moment_now_def moment_add_minutes_def toISOString_def
      generateShortcode_def validateShortcode_def validity_passes_def
      split: if_splits sum.splits)
   apply (auto dest: generateShortcode_loop_Inr typeof_string_the_string)
  done

text \<open>A failing call returns the maps it was given.\<close>

lemma createShortURL_Inl:
  assumes "createShortURL parse nanoid8 nanoid21 now s url validity0 custom0 = (Inl err, s')"
  shows "s' = s"
  using assms
  by (simp add: createShortURL_def Let_def moment_now_def moment_add_minutes_def
      split: if_splits sum.splits)

lemma validity_passes_nonneg:
  "validity_passes validity0 \<Longrightarrow> 0 \<le> add_amount (default_param validity0 (JNum 30))"
  by (cases "default_param validity0 (JNum 30)")
     (auto simp: validity_passes_def Let_def split: if_splits)

section \<open>What a call of recordClick does\<close>

lemma recordClick_True:
  assumes "recordClick now now' s code ref addr = (True, s')"
  shows "\<exists>i e. Map_get code (shortcodeToUrl s) = Some i \<and> i \<noteq> []
           \<and> Map_get i (urlStore s) = Some e \<and> \<not> expiryTime e < now
           \<and> s' = s\<lparr>urlStore := Map_set i
                  (e\<lparr>clicks := clicks e @ [\<lparr>timestamp = now',
                                            referrer = or_default ref ''direct'',
                                            ip = or_default addr ''unknown'',
                                            location = ''Unknown''\<rparr>],
                     totalClicks := totalClicks e + 1\<rparr>) (urlStore s)\<rparr>"
  using assms
  by (auto simp: recordClick_def Let_def isAfter_def split: option.splits if_splits)

lemma recordClick_False:
  assumes "recordClick now now' s code ref addr = (False, s')"
  shows "s' = s"
  using assms
  by (auto simp: recordClick_def Let_def split: option.splits if_splits)

section \<open>The invariant of the two maps\<close>

lemma store_inv_empty: "store_inv empty_store"
  by (simp add: store_inv_def empty_store_def Map_get_def)

lemma store_inv_insert:
  assumes "store_inv s" and "i \<noteq> []" and "c \<noteq> []" and "\<not> Map_has c (shortcodeToUrl s)"
    and "shortcode e = c"
  shows "store_inv \<lparr>urlStore = Map_set i e (urlStore s),
                    shortcodeToUrl = Map_set c i (shortcodeToUrl s)\<rparr>"
  using assms unfolding store_inv_def
  by (simp add: Map_get_Map_set Map_has_Map_set) metis

lemma store_inv_mutate:
  assumes "store_inv s" and "Map_get i (urlStore s) = Some e" and "shortcode e' = shortcode e"
  shows "store_inv (s\<lparr>urlStore := Map_set i e' (urlStore s)\<rparr>)"
  using assms unfolding store_inv_def
  by (simp add: Map_get_Map_set Map_has_Map_set) metis

lemma createShortURL_code_nonempty:
  assumes "\<forall>i. nanoid_string 8 (nanoid8 i)"
    and "if truthy custom then custom = JStr code \<and> shortcodeRegex code
         else \<exists>i<maxAttempts. code = nanoid8 i"
  shows "3 \<le> length code \<and> length code \<le> 20 \<and> list_all urlAlphabet code"
proof (cases "truthy custom")
  case True
  with assms(2) show ?thesis by (simp add: shortcodeRegex_def isAlnum_urlAlphabet)
next
  case False
  with assms(2) obtain i where "code = nanoid8 i" by auto
  with assms(1) have "nanoid_string 8 code" by simp
  then show ?thesis by (simp add: nanoid_string_def)
qed

lemma reachable_inv:
  assumes "reachable s es"
  shows "store_inv s \<and> (\<forall>e\<in>set es. Map_has (shortcode e) (shortcodeToUrl s))
         \<and> distinct (map shortcode es)"
  using assms
proof (induction rule: reachable.induct)
  case init
  show ?case by (simp add: store_inv_empty)
next
  case (created s es nanoid8 nanoid21 parse now url validity customShortcode r s' e)
  from createShortURL_Inr [OF created.hyps(4)] obtain code where
    fresh: "\<not> Map_has code (shortcodeToUrl s)"
    and origin: "if truthy (default_param customShortcode JNull)
                 then default_param customShortcode JNull = JStr code \<and> shortcodeRegex code
                 else \<exists>i<maxAttempts. code = nanoid8 i"
    and s': "s' = \<lparr>urlStore = Map_set nanoid21
                     \<lparr>id_entry = nanoid21, originalURL = url, shortcode = code,
                      createdAt = now + add_amount (default_param validity (JNum 30)) * 60000,
                      expiryTime = now + add_amount (default_param validity (JNum 30)) * 60000,
                      clicks = [], totalClicks = 0\<rparr> (urlStore s),
                   shortcodeToUrl = Map_set code nanoid21 (shortcodeToUrl s)\<rparr>"
    by blast
  from createShortURL_code_nonempty [OF created.hyps(2) origin] have "code \<noteq> []" by auto
  moreover from created.hyps(3) have "nanoid21 \<noteq> []" by (auto simp: nanoid_string_def)
  ultimately have inv: "store_inv s'"
    unfolding s' using created.IH fresh by (intro store_inv_insert) simp_all
  from created.hyps(5) have e: "shortcode e = code"
    by (auto simp: s' Map_get_Map_set)
  have "\<forall>x\<in>set (es @ [e]). Map_has (shortcode x) (shortcodeToUrl s')"
    using created.IH e by (simp add: s' Map_has_Map_set)
  moreover have "distinct (map shortcode (es @ [e]))"
    using created.IH e fresh by auto
  ultimately show ?case using inv by blast
next
  case (failed s es parse nanoid8 nanoid21 now url validity customShortcode err s')
  from createShortURL_Inl [OF failed.hyps(2)] failed.IH show ?case by simp
next
  case (clicked s es now now' code ref addr b s')
  show ?case
  proof (cases b)
    case False
    with clicked.hyps(2) have "s' = s" by (simp add: recordClick_False)
    with clicked.IH show ?thesis by simp
  next
    case True
    with clicked.hyps(2) have "recordClick now now' s code ref addr = (True, s')" by simp
    from recordClick_True [OF this] obtain i e c where
      e: "Map_get i (urlStore s) = Some e"
      and s': "s' = s\<lparr>urlStore := Map_set i (e\<lparr>clicks := clicks e @ [c],
                        totalClicks := totalClicks e + 1\<rparr>) (urlStore s)\<rparr>"
      by blast
    have "store_inv s'"
      unfolding s' using clicked.IH e by (intro store_inv_mutate [where e = e]) simp_all
    moreover have "shortcodeToUrl s' = shortcodeToUrl s" by (simp add: s')
    ultimately show ?thesis using clicked.IH by simp
  qed
qed


section \<open>The sample states are reachable\<close>

lemma sample_draws_ok: "\<forall>i. nanoid_string 8 (sample_draws i)"
  by (simp add: sample_draws_def nanoid_string_def urlAlphabet_def isAlnum_def)

lemma sample_ids_ok: "nanoid_string 21 id_one" "nanoid_string 21 id_two" "nanoid_string 21 id_three"
  by code_simp+


lemma reachable_store_one: "reachable store_one [entry_one]"
proof -
  have run: "createShortURL sample_parse sample_draws id_one 1000 empty_store
               ''https://example.com/page'' JUndefined JUndefined
             = (Inr \<lparr>shortLink = ''http://localhost:5000/ab_cd-ef'', expiry = 1801000\<rparr>, store_one)"
    by code_simp
  have stored: "Map_get id_one (urlStore store_one) = Some entry_one"
    by code_simp
  from reachable.created [OF reachable.init sample_draws_ok sample_ids_ok(1) run stored]
  show ?thesis by simp
qed

lemma reachable_store_two: "reachable store_two [entry_one, entry_two]"
proof -
  have run: "createShortURL sample_parse sample_draws id_two 2000 store_one
               ''http://x.com'' (JNum 1) (JStr ''abc123'')
             = (Inr \<lparr>shortLink = ''http://localhost:5000/abc123'', expiry = 62000\<rparr>, store_two)"
    by code_simp
  have stored: "Map_get id_two (urlStore store_two) = Some entry_two"
    by code_simp
  from reachable.created [OF reachable_store_one sample_draws_ok sample_ids_ok(2) run stored]
  show ?thesis by simp
qed

lemma reachable_store_clicked: "reachable store_clicked [entry_one, entry_two]"
proof -
  have run: "recordClick 100000 100001 store_two ''ab_cd-ef'' (Some ''https://google.com'') None
             = (True, store_clicked)"
    by code_simp
  from reachable.clicked [OF reachable_store_two run] show ?thesis .
qed

section \<open>Claims\<close>

text \<open>
  C7. Whenever \<^verbatim>\<open>createShortURL\<close> throws (whichever of the five errors), both maps are what
  they were before the call: nothing was written to \<^verbatim>\<open>urlStore\<close> or \<^verbatim>\<open>shortcodeToUrl\<close>.
\<close>

theorem createShortURL_failure_writes_nothing:
  assumes "fst (createShortURL parse nanoid8 nanoid21 now s url validity custom) = Inl err"
  shows "snd (createShortURL parse nanoid8 nanoid21 now s url validity custom) = s
         \<and> urlStore (snd (createShortURL parse nanoid8 nanoid21 now s url validity custom)) = urlStore s
         \<and> shortcodeToUrl (snd (createShortURL parse nanoid8 nanoid21 now s url validity custom))
             = shortcodeToUrl s"
proof -
  obtain res s' where eq: "createShortURL parse nanoid8 nanoid21 now s url validity custom = (res, s')"
    by (cases "createShortURL parse nanoid8 nanoid21 now s url validity custom")
  with assms have "res = Inl err" by simp
  with eq have "s' = s" by (auto dest: createShortURL_Inl)
  with eq show ?thesis by simp
qed

text \<open>
  The generator gives up after ten colliding draws: with \<^verbatim>\<open>ab_cd-ef\<close> taken and drawn every
  time, the call throws and leaves the maps alone.
\<close>

theorem createShortURL_failure_writes_nothing_witness:
  "fst (createShortURL sample_parse sample_draws id_three 3000 store_two
          ''https://x.com'' JUndefined JUndefined) = Inl GenerationExhausted
   \<and> snd (createShortURL sample_parse sample_draws id_three 3000 store_two
          ''https://x.com'' JUndefined JUndefined) = store_two"
proof -
  have h: "fst (createShortURL sample_parse sample_draws id_three 3000 store_two
          ''https://x.com'' JUndefined JUndefined) = Inl GenerationExhausted"
    by code_simp
  from createShortURL_failure_writes_nothing [OF h] h show ?thesis by simp
qed

text \<open>
  C1. The claim: the stored \<^verbatim>\<open>expiryTime\<close> is the stored \<^verbatim>\<open>createdAt\<close> plus the validity, and
  strictly later. The code: \<^verbatim>\<open>createdAt.add(validity, 'minutes')\<close> moves the moment object
  \<^verbatim>\<open>createdAt\<close> itself and returns it, so both fields are read from one object after the
  addition. Every successful call stores the same instant, the instant of the call plus
  the validity, in both fields.
\<close>

theorem createShortURL_stores_expiry_as_createdAt:
  assumes "createShortURL parse nanoid8 nanoid21 now s url validity custom = (Inr r, s')"
  shows "\<exists>e. Map_get nanoid21 (urlStore s') = Some e
           \<and> createdAt e = expiryTime e
           \<and> expiryTime e = now + add_amount (default_param validity (JNum 30)) * 60000
           \<and> expiry r = expiryTime e"
proof -
  from createShortURL_Inr [OF assms] obtain code where
    "r = \<lparr>shortLink = ''http://localhost:5000/'' @ code,
          expiry = now + add_amount (default_param validity (JNum 30)) * 60000\<rparr>"
    and "s' = \<lparr>urlStore = Map_set nanoid21
                     \<lparr>id_entry = nanoid21, originalURL = url, shortcode = code,
                      createdAt = now + add_amount (default_param validity (JNum 30)) * 60000,
                      expiryTime = now + add_amount (default_param validity (JNum 30)) * 60000,
                      clicks = [], totalClicks = 0\<rparr> (urlStore s),
                   shortcodeToUrl = Map_set code nanoid21 (shortcodeToUrl s)\<rparr>"
    by blast
  then show ?thesis by (simp add: Map_get_Map_set)
qed

text \<open>A call at instant 1000 with a validity of 30 minutes stores 1801000 in both fields.\<close>

theorem createShortURL_stores_expiry_as_createdAt_witness:
  "createShortURL sample_parse sample_draws id_one 1000 empty_store
       ''https://example.com/page'' (JNum 30) JUndefined
     = (Inr \<lparr>shortLink = ''http://localhost:5000/ab_cd-ef'', expiry = 1801000\<rparr>, store_one)
   \<and> Map_get id_one (urlStore store_one) = Some entry_one
   \<and> createdAt entry_one = 1801000 \<and> expiryTime entry_one = 1801000"
proof -
  have run: "createShortURL sample_parse sample_draws id_one 1000 empty_store
       ''https://example.com/page'' (JNum 30) JUndefined
     = (Inr \<lparr>shortLink = ''http://localhost:5000/ab_cd-ef'', expiry = 1801000\<rparr>, store_one)"
    by code_simp
  have stored: "Map_get id_one (urlStore store_one) = Some entry_one"
    by code_simp
  from createShortURL_stores_expiry_as_createdAt [OF run] stored
  have "createdAt entry_one = expiryTime entry_one \<and> expiryTime entry_one = 1801000"
    by simp
  with run stored show ?thesis by simp
qed

text \<open>
  C4. The claim: a validity that is given and is not a positive number is rejected, zero
  included. The code guards the test with \<^verbatim>\<open>validity && ...\<close>, and 0 is falsy: with a
  valid URL and no custom shortcode the call is never rejected for its validity; when the
  generator finds a free code it succeeds, with an expiry equal to the instant of the call.
\<close>

theorem createShortURL_accepts_validity_zero:
  assumes "validateURL parse url" and "\<not> Map_has (nanoid8 0) (shortcodeToUrl s)"
  shows "fst (createShortURL parse nanoid8 nanoid21 now s url (JNum 0) JUndefined)
         = Inr \<lparr>shortLink = ''http://localhost:5000/'' @ nanoid8 0, expiry = now\<rparr>"
  using assms
  by (simp add: createShortURL_def Let_def default_param_def generateShortcode_def
      generateShortcode_loop.simps [of nanoid8 "shortcodeToUrl s" 0] maxAttempts_def
      moment_now_def moment_add_minutes_def toISOString_def)

theorem createShortURL_accepts_validity_zero_witness:
  "validateURL sample_parse ''https://x.com''
   \<and> \<not> Map_has (sample_draws 0) (shortcodeToUrl empty_store)
   \<and> fst (createShortURL sample_parse sample_draws id_one 1000 empty_store
            ''https://x.com'' (JNum 0) JUndefined)
       = Inr \<lparr>shortLink = ''http://localhost:5000/ab_cd-ef'', expiry = 1000\<rparr>"
proof -
  have a: "validateURL sample_parse ''https://x.com''" by code_simp
  have b: "\<not> Map_has (sample_draws 0) (shortcodeToUrl empty_store)" by code_simp
  from createShortURL_accepts_validity_zero
         [of sample_parse "''https://x.com''" sample_draws empty_store id_one 1000, OF a b] a b
  show ?thesis by (simp add: sample_draws_def)
qed

text \<open>
  C2, as amended. The entries created so far have pairwise different shortcodes, and so
  have the entries held under different ids. A call whose custom shortcode is already in
  \<^verbatim>\<open>shortcodeToUrl\<close> throws and leaves both maps alone; the error is the collision error
  when the URL, the validity and the shortcode pattern pass their checks, which come first.
\<close>

theorem shortcodes_unique:
  assumes "reachable s es"
  shows "distinct (map shortcode es)
     \<and> (\<forall>i j e f. Map_get i (urlStore s) = Some e \<and> Map_get j (urlStore s) = Some f \<and> i \<noteq> j
           \<longrightarrow> shortcode e \<noteq> shortcode f)
     \<and> (\<forall>c. Map_has c (shortcodeToUrl s) \<longrightarrow>
           (\<exists>err. createShortURL parse nanoid8 nanoid21 now s url validity (JStr c) = (Inl err, s))
           \<and> (validateURL parse url \<and> validity_passes validity \<and> validateShortcode (JStr c) \<longrightarrow>
                createShortURL parse nanoid8 nanoid21 now s url validity (JStr c)
                  = (Inl ShortcodeCollision, s)))"
proof -
  from reachable_inv [OF assms] have inv: "store_inv s" and d: "distinct (map shortcode es)"
    by simp_all
  have second: "\<forall>i j e f. Map_get i (urlStore s) = Some e \<and> Map_get j (urlStore s) = Some f \<and> i \<noteq> j
           \<longrightarrow> shortcode e \<noteq> shortcode f"
    using inv unfolding store_inv_def by blast
  have third: "(\<exists>err. createShortURL parse nanoid8 nanoid21 now s url validity (JStr c) = (Inl err, s))
           \<and> (validateURL parse url \<and> validity_passes validity \<and> validateShortcode (JStr c) \<longrightarrow>
                createShortURL parse nanoid8 nanoid21 now s url validity (JStr c)
                  = (Inl ShortcodeCollision, s))"
    if has: "Map_has c (shortcodeToUrl s)" for c
  proof -
    from has obtain i where "Map_get c (shortcodeToUrl s) = Some i"
      by (auto simp: Map_has_get)
    with inv have "c \<noteq> []" unfolding store_inv_def by blast
    with has show ?thesis
      by (simp add: createShortURL_def Let_def default_param_def validity_passes_def)
  qed
  from d second third show ?thesis by blast
qed

theorem shortcodes_unique_witness:
  "reachable store_two [entry_one, entry_two]
   \<and> distinct (map shortcode [entry_one, entry_two])
   \<and> Map_has ''abc123'' (shortcodeToUrl store_two)
   \<and> createShortURL sample_parse sample_draws id_three 3000 store_two
        ''https://x.com'' (JNum 30) (JStr ''abc123'') = (Inl ShortcodeCollision, store_two)"
proof -
  have has: "Map_has ''abc123'' (shortcodeToUrl store_two)" by code_simp
  have ok: "validateURL sample_parse ''https://x.com'' \<and> validity_passes (JNum 30)
            \<and> validateShortcode (JStr ''abc123'')" by code_simp
  note u = shortcodes_unique [OF reachable_store_two,
      of sample_parse sample_draws id_three 3000 "''https://x.com''" "JNum 30"]
  from u have "distinct (map shortcode [entry_one, entry_two])" by blast
  moreover from u has ok
  have "createShortURL sample_parse sample_draws id_three 3000 store_two
        ''https://x.com'' (JNum 30) (JStr ''abc123'') = (Inl ShortcodeCollision, store_two)"
    by blast
  ultimately show ?thesis using reachable_store_two has by blast
qed

text \<open>
  C2, as stated, fails: with \<^verbatim>\<open>abc123\<close> and \<^verbatim>\<open>ab_cd-ef\<close> both in \<^verbatim>\<open>shortcodeToUrl\<close>, a call
  with the custom shortcode \<^verbatim>\<open>abc123\<close> and a URL that does not parse throws the URL error,
  and a call with the custom shortcode \<^verbatim>\<open>ab_cd-ef\<close> (a generated code) and valid other
  arguments throws the shortcode pattern error.
\<close>

theorem existing_shortcode_other_error:
  "Map_has ''abc123'' (shortcodeToUrl store_two)
   \<and> fst (createShortURL sample_parse sample_draws id_three 3000 store_two
            ''not-a-url'' (JNum 30) (JStr ''abc123'')) = Inl InvalidURL
   \<and> Map_has ''ab_cd-ef'' (shortcodeToUrl store_two)
   \<and> fst (createShortURL sample_parse sample_draws id_three 3000 store_two
            ''https://x.com'' (JNum 30) (JStr ''ab_cd-ef'')) = Inl InvalidShortcode"
  by code_simp


text \<open>
  C3. In every state the service can be in, \<^verbatim>\<open>getURLByShortcode\<close> returns \<^verbatim>\<open>null\<close> exactly
  when the shortcode is not a key of \<^verbatim>\<open>shortcodeToUrl\<close> or the clock is past the
  \<^verbatim>\<open>expiryTime\<close> of the entry it leads to; otherwise it returns that stored entry.
  \<^verbatim>\<open>getURLStatistics\<close> returns \<^verbatim>\<open>null\<close> in exactly the same cases; otherwise it returns
  the statistics object of that stored entry: the short link of the shortcode asked for,
  the entry's original URL, creation and expiry instants and click count, and the view
  (timestamp, referrer as source, location) of each of its clicks, in order.
\<close>

theorem lookup_visibility:
  assumes "reachable s es"
  shows "(getURLByShortcode now s code = None \<longleftrightarrow>
            (Map_get code (shortcodeToUrl s) = None
             \<or> (\<exists>i e. Map_get code (shortcodeToUrl s) = Some i
                      \<and> Map_get i (urlStore s) = Some e \<and> expiryTime e < now)))
       \<and> (\<forall>e. getURLByShortcode now s code = Some e \<longrightarrow>
                (\<exists>i. Map_get code (shortcodeToUrl s) = Some i \<and> Map_get i (urlStore s) = Some e))
       \<and> (getURLStatistics now s code = None \<longleftrightarrow> getURLByShortcode now s code = None)
       \<and> (\<forall>i e. Map_get code (shortcodeToUrl s) = Some i \<and> Map_get i (urlStore s) = Some e
                  \<and> \<not> expiryTime e < now \<longrightarrow>
              getURLByShortcode now s code = Some e
              \<and> getURLStatistics now s code =
                  Some \<lparr>stat_shortLink = ''http://localhost:5000/'' @ code,
                        stat_originalURL = originalURL e,
                        stat_createdAt = createdAt e,
                        stat_expiryTime = expiryTime e,
                        stat_totalClicks = totalClicks e,
                        stat_clicks = map (\<lambda>c. \<lparr>view_timestamp = timestamp c,
                                                  source = referrer c,
                                                  view_location = location c\<rparr>) (clicks e)\<rparr>)"
proof -
  from reachable_inv [OF assms] have inv: "store_inv s" by simp
  have known: "i \<noteq> [] \<and> (\<exists>e. Map_get i (urlStore s) = Some e)"
    if "Map_get code (shortcodeToUrl s) = Some i" for i
    using inv that unfolding store_inv_def by (auto simp: Map_has_get)
  have first: "getURLByShortcode now s code = None \<longleftrightarrow>
            (Map_get code (shortcodeToUrl s) = None
             \<or> (\<exists>i e. Map_get code (shortcodeToUrl s) = Some i
                      \<and> Map_get i (urlStore s) = Some e \<and> expiryTime e < now))"
  proof (cases "Map_get code (shortcodeToUrl s)")
    case None
    then show ?thesis by (simp add: getURLByShortcode_def)
  next
    case (Some i)
    from known [OF Some] obtain e where "i \<noteq> []" and "Map_get i (urlStore s) = Some e" by blast
    with Some show ?thesis by (simp add: getURLByShortcode_def isAfter_def)
  qed
  have second: "\<forall>e. getURLByShortcode now s code = Some e \<longrightarrow>
                (\<exists>i. Map_get code (shortcodeToUrl s) = Some i \<and> Map_get i (urlStore s) = Some e)"
    by (auto simp: getURLByShortcode_def split: option.splits if_splits)
  have third: "getURLStatistics now s code = None \<longleftrightarrow> getURLByShortcode now s code = None"
    by (simp add: getURLStatistics_def split: option.splits)
  have views: "map view_of cs = map (\<lambda>c. \<lparr>view_timestamp = timestamp c, source = referrer c,
                                           view_location = location c\<rparr>) cs" for cs
    by (induction cs) (simp_all add: view_of_def)
  have fourth: "getURLByShortcode now s code = Some e
              \<and> getURLStatistics now s code =
                  Some \<lparr>stat_shortLink = ''http://localhost:5000/'' @ code,
                        stat_originalURL = originalURL e,
                        stat_createdAt = createdAt e,
                        stat_expiryTime = expiryTime e,
                        stat_totalClicks = totalClicks e,
                        stat_clicks = map (\<lambda>c. \<lparr>view_timestamp = timestamp c,
                                                  source = referrer c,
                                                  view_location = location c\<rparr>) (clicks e)\<rparr>"
    if i: "Map_get code (shortcodeToUrl s) = Some i" and e: "Map_get i (urlStore s) = Some e"
      and live: "\<not> expiryTime e < now" for i e
  proof -
    from known [OF i] have "i \<noteq> []" by blast
    with i e live have g: "getURLByShortcode now s code = Some e"
      by (simp add: getURLByShortcode_def isAfter_def)
    then show ?thesis by (simp add: getURLStatistics_def views)
  qed
  from first second third fourth show ?thesis by blast
qed

text \<open>
  At instant 100000 the entry of \<^verbatim>\<open>abc123\<close> (expiry 62000) is hidden, the entry of
  \<^verbatim>\<open>ab_cd-ef\<close> (expiry 1801000) is returned, and \<^verbatim>\<open>nosuch\<close> is unknown. After the visit,
  at instant 200000, both lookups of \<^verbatim>\<open>ab_cd-ef\<close> show the entry with its one click.
\<close>

theorem lookup_visibility_witness:
  "reachable store_two [entry_one, entry_two]
   \<and> getURLByShortcode 100000 store_two ''abc123'' = None
   \<and> getURLStatistics 100000 store_two ''abc123'' = None
   \<and> getURLByShortcode 100000 store_two ''nosuch'' = None
   \<and> getURLByShortcode 100000 store_two ''ab_cd-ef'' = Some entry_one
   \<and> reachable store_clicked [entry_one, entry_two]
   \<and> getURLByShortcode 200000 store_clicked ''ab_cd-ef''
       = Some (entry_one\<lparr>clicks := [\<lparr>timestamp = 100001, referrer = ''https://google.com'',
                                      ip = ''unknown'', location = ''Unknown''\<rparr>],
                          totalClicks := 1\<rparr>)
   \<and> getURLStatistics 200000 store_clicked ''ab_cd-ef''
       = Some \<lparr>stat_shortLink = ''http://localhost:5000/ab_cd-ef'',
               stat_originalURL = ''https://example.com/page'',
               stat_createdAt = 1801000,
               stat_expiryTime = 1801000,
               stat_totalClicks = 1,
               stat_clicks = [\<lparr>view_timestamp = 100001, source = ''https://google.com'',
                               view_location = ''Unknown''\<rparr>]\<rparr>"
proof -
  note r = reachable_store_two
  have "Map_get ''abc123'' (shortcodeToUrl store_two) = Some id_two
        \<and> Map_get id_two (urlStore store_two) = Some entry_two
        \<and> expiryTime entry_two < 100000"
    by code_simp
  with lookup_visibility [OF r, of 100000 "''abc123''"]
  have a: "getURLByShortcode 100000 store_two ''abc123'' = None
           \<and> getURLStatistics 100000 store_two ''abc123'' = None"
    by blast
  have "Map_get ''nosuch'' (shortcodeToUrl store_two) = None" by code_simp
  with lookup_visibility [OF r, of 100000 "''nosuch''"]
  have b: "getURLByShortcode 100000 store_two ''nosuch'' = None" by blast
  have "Map_get ''ab_cd-ef'' (shortcodeToUrl store_two) = Some id_one
        \<and> Map_get id_one (urlStore store_two) = Some entry_one
        \<and> \<not> expiryTime entry_one < 100000"
    by code_simp
  with lookup_visibility [OF r, of 100000 "''ab_cd-ef''"]
  have c: "getURLByShortcode 100000 store_two ''ab_cd-ef'' = Some entry_one" by blast
  define e where "e = entry_one\<lparr>clicks := [\<lparr>timestamp = 100001,
      referrer = ''https://google.com'', ip = ''unknown'', location = ''Unknown''\<rparr>],
      totalClicks := 1\<rparr>"
  have "Map_get ''ab_cd-ef'' (shortcodeToUrl store_clicked) = Some id_one
        \<and> Map_get id_one (urlStore store_clicked) = Some e
        \<and> \<not> expiryTime e < 200000"
    unfolding e_def by code_simp
  with lookup_visibility [OF reachable_store_clicked, of 200000 "''ab_cd-ef''"]
  have d: "getURLByShortcode 200000 store_clicked ''ab_cd-ef'' = Some e
           \<and> getURLStatistics 200000 store_clicked ''ab_cd-ef'' =
                  Some \<lparr>stat_shortLink = ''http://localhost:5000/'' @ ''ab_cd-ef'',
                        stat_originalURL = originalURL e,
                        stat_createdAt = createdAt e,
                        stat_expiryTime = expiryTime e,
                        stat_totalClicks = totalClicks e,
                        stat_clicks = map (\<lambda>c. \<lparr>view_timestamp = timestamp c,
                                                  source = referrer c,
                                                  view_location = location c\<rparr>) (clicks e)\<rparr>"
    by blast
  have fields: "originalURL e = ''https://example.com/page'' \<and> createdAt e = 1801000
      \<and> expiryTime e = 1801000 \<and> totalClicks e = 1
      \<and> clicks e = [\<lparr>timestamp = 100001, referrer = ''https://google.com'',
                       ip = ''unknown'', location = ''Unknown''\<rparr>]"
    by (simp add: e_def entry_one_def)
  from d fields have d': "getURLByShortcode 200000 store_clicked ''ab_cd-ef''
       = Some (entry_one\<lparr>clicks := [\<lparr>timestamp = 100001, referrer = ''https://google.com'',
                                      ip = ''unknown'', location = ''Unknown''\<rparr>],
                          totalClicks := 1\<rparr>)
   \<and> getURLStatistics 200000 store_clicked ''ab_cd-ef''
       = Some \<lparr>stat_shortLink = ''http://localhost:5000/ab_cd-ef'',
               stat_originalURL = ''https://example.com/page'',
               stat_createdAt = 1801000,
               stat_expiryTime = 1801000,
               stat_totalClicks = 1,
               stat_clicks = [\<lparr>view_timestamp = 100001, source = ''https://google.com'',
                               view_location = ''Unknown''\<rparr>]\<rparr>"
    by (simp add: e_def)
  from r a b c reachable_store_clicked d' show ?thesis by blast
qed

text \<open>
  C5, as amended. A successful call stores its entry under a shortcode of 3 to 20
  characters, each a letter, a digit, \<^verbatim>\<open>_\<close> or \<^verbatim>\<open>-\<close>. A custom shortcode is stored as given
  and matches \<^verbatim>\<open>^[a-zA-Z0-9]{3,20}$\<close>; a generated one has 8 characters of nanoid's alphabet.
\<close>

theorem stored_shortcode_shape:
  assumes "\<forall>i. nanoid_string 8 (nanoid8 i)"
    and "createShortURL parse nanoid8 nanoid21 now s url validity custom = (Inr r, s')"
  shows "\<exists>e. Map_get nanoid21 (urlStore s') = Some e
           \<and> Map_get (shortcode e) (shortcodeToUrl s') = Some nanoid21
           \<and> 3 \<le> length (shortcode e) \<and> length (shortcode e) \<le> 20
           \<and> list_all urlAlphabet (shortcode e)
           \<and> (if truthy (default_param custom JNull)
               then custom = JStr (shortcode e) \<and> shortcodeRegex (shortcode e)
               else length (shortcode e) = 8)"
proof -
  from createShortURL_Inr [OF assms(2)] obtain code where
    origin: "if truthy (default_param custom JNull)
             then default_param custom JNull = JStr code \<and> shortcodeRegex code
             else \<exists>i<maxAttempts. code = nanoid8 i"
    and s': "s' = \<lparr>urlStore = Map_set nanoid21
                     \<lparr>id_entry = nanoid21, originalURL = url, shortcode = code,
                      createdAt = now + add_amount (default_param validity (JNum 30)) * 60000,
                      expiryTime = now + add_amount (default_param validity (JNum 30)) * 60000,
                      clicks = [], totalClicks = 0\<rparr> (urlStore s),
                   shortcodeToUrl = Map_set code nanoid21 (shortcodeToUrl s)\<rparr>"
    by blast
  from createShortURL_code_nonempty [OF assms(1) origin]
  have shape: "3 \<le> length code \<and> length code \<le> 20 \<and> list_all urlAlphabet code" .
  have kind: "if truthy (default_param custom JNull)
              then custom = JStr code \<and> shortcodeRegex code else length code = 8"
  proof (cases "truthy (default_param custom JNull)")
    case True
    with origin have "default_param custom JNull = JStr code" and "shortcodeRegex code"
      by simp_all
    then show ?thesis using True by (auto simp: default_param_def split: if_splits)
  next
    case False
    with origin obtain i where "code = nanoid8 i" by auto
    with assms(1) have "nanoid_string 8 code" by simp
    with False show ?thesis by (simp add: nanoid_string_def)
  qed
  from shape kind show ?thesis by (simp add: s' Map_get_Map_set)
qed

theorem stored_shortcode_shape_witness:
  "(\<forall>i. nanoid_string 8 (sample_draws i))
   \<and> createShortURL sample_parse sample_draws id_two 2000 store_one
        ''http://x.com'' (JNum 1) (JStr ''abc123'')
      = (Inr \<lparr>shortLink = ''http://localhost:5000/abc123'', expiry = 62000\<rparr>, store_two)
   \<and> Map_get id_two (urlStore store_two) = Some entry_two
   \<and> shortcode entry_two = ''abc123''
   \<and> shortcodeRegex (shortcode entry_two)"
proof -
  have run: "createShortURL sample_parse sample_draws id_two 2000 store_one
               ''http://x.com'' (JNum 1) (JStr ''abc123'')
             = (Inr \<lparr>shortLink = ''http://localhost:5000/abc123'', expiry = 62000\<rparr>, store_two)"
    by code_simp
  have stored: "Map_get id_two (urlStore store_two) = Some entry_two" by code_simp
  have t: "truthy (default_param (JStr ''abc123'') JNull)" by code_simp
  from stored_shortcode_shape [OF sample_draws_ok run] stored t
  have "JStr ''abc123'' = JStr (shortcode entry_two) \<and> shortcodeRegex (shortcode entry_two)"
    by simp
  with sample_draws_ok run stored show ?thesis by simp
qed

text \<open>
  C5, as stated, fails: \<^verbatim>\<open>ab_cd-ef\<close> is a string \<^verbatim>\<open>nanoid(8)\<close> can return; the call that
  draws it succeeds and stores it as the shortcode, and it does not match
  \<^verbatim>\<open>^[a-zA-Z0-9]{3,20}$\<close>.
\<close>

theorem generated_shortcode_not_alphanumeric:
  "nanoid_string 8 (sample_draws 0)
   \<and> createShortURL sample_parse sample_draws id_one 1000 empty_store
        ''https://example.com/page'' JUndefined JUndefined
      = (Inr \<lparr>shortLink = ''http://localhost:5000/ab_cd-ef'', expiry = 1801000\<rparr>, store_one)
   \<and> map shortcode (Map_values (urlStore store_one)) = [''ab_cd-ef'']
   \<and> Map_has ''ab_cd-ef'' (shortcodeToUrl store_one)
   \<and> \<not> shortcodeRegex ''ab_cd-ef''
   \<and> \<not> validateShortcode (JStr ''ab_cd-ef'')"
  by code_simp

text \<open>
  C6. In every state the service can be in, \<^verbatim>\<open>recordClick\<close> returns \<^verbatim>\<open>false\<close> and changes
  nothing when the shortcode is unknown or its entry has expired; otherwise (the shortcode
  leads to an entry, and these are all the cases) it returns \<^verbatim>\<open>true\<close> and the entry has
  one more click at the end, with location \<^verbatim>\<open>Unknown\<close> and referrer \<^verbatim>\<open>direct\<close> when none
  was given, and \<^verbatim>\<open>totalClicks\<close> one higher. The method returns a boolean on every path
  (its \<^verbatim>\<open>catch\<close> returns \<^verbatim>\<open>false\<close>), which the result type of the model expresses.
\<close>

theorem recordClick_best_effort:
  assumes "reachable s es"
  shows "(Map_get code (shortcodeToUrl s) = None \<longrightarrow>
            recordClick now now' s code ref addr = (False, s))
       \<and> (\<forall>i. Map_get code (shortcodeToUrl s) = Some i \<longrightarrow>
            (\<exists>e. Map_get i (urlStore s) = Some e
               \<and> (expiryTime e < now \<longrightarrow> recordClick now now' s code ref addr = (False, s))
               \<and> (\<not> expiryTime e < now \<longrightarrow>
                    recordClick now now' s code ref addr =
                      (True, s\<lparr>urlStore := Map_set i
                         (e\<lparr>clicks := clicks e @
                              [\<lparr>timestamp = now',
                                referrer = (case ref of None \<Rightarrow> ''direct''
                                            | Some x \<Rightarrow> if x = [] then ''direct'' else x),
                                ip = (case addr of None \<Rightarrow> ''unknown''
                                      | Some x \<Rightarrow> if x = [] then ''unknown'' else x),
                                location = ''Unknown''\<rparr>],
                            totalClicks := totalClicks e + 1\<rparr>) (urlStore s)\<rparr>))))"
proof -
  from reachable_inv [OF assms] have inv: "store_inv s" by simp
  have d: "or_default x y = (case x of None \<Rightarrow> y | Some z \<Rightarrow> if z = [] then y else z)"
    for x y by (cases x) simp_all
  have unknown: "Map_get code (shortcodeToUrl s) = None \<longrightarrow>
            recordClick now now' s code ref addr = (False, s)"
    by (simp add: recordClick_def)
  have known: "\<exists>e. Map_get i (urlStore s) = Some e
               \<and> (expiryTime e < now \<longrightarrow> recordClick now now' s code ref addr = (False, s))
               \<and> (\<not> expiryTime e < now \<longrightarrow>
                    recordClick now now' s code ref addr =
                      (True, s\<lparr>urlStore := Map_set i
                         (e\<lparr>clicks := clicks e @
                              [\<lparr>timestamp = now',
                                referrer = (case ref of None \<Rightarrow> ''direct''
                                            | Some x \<Rightarrow> if x = [] then ''direct'' else x),
                                ip = (case addr of None \<Rightarrow> ''unknown''
                                      | Some x \<Rightarrow> if x = [] then ''unknown'' else x),
                                location = ''Unknown''\<rparr>],
                            totalClicks := totalClicks e + 1\<rparr>) (urlStore s)\<rparr>))"
    if i: "Map_get code (shortcodeToUrl s) = Some i" for i
  proof -
    from inv i have "i \<noteq> [] \<and> (\<exists>e. Map_get i (urlStore s) = Some e)"
      unfolding store_inv_def by (auto simp: Map_has_get)
    then obtain e where "i \<noteq> []" and e: "Map_get i (urlStore s) = Some e" by blast
    with i show ?thesis
      by (simp add: recordClick_def Let_def isAfter_def d)
  qed
  from unknown known show ?thesis by blast
qed

text \<open>
  At instant 100000: a click on \<^verbatim>\<open>nosuch\<close> and one on the expired \<^verbatim>\<open>abc123\<close> return
  \<^verbatim>\<open>false\<close>; a click on \<^verbatim>\<open>ab_cd-ef\<close> without referrer returns \<^verbatim>\<open>true\<close> and is recorded.
\<close>

theorem recordClick_best_effort_witness:
  "reachable store_two [entry_one, entry_two]
   \<and> recordClick 100000 100001 store_two ''nosuch'' None None = (False, store_two)
   \<and> recordClick 100000 100001 store_two ''abc123'' (Some ''https://google.com'') None
       = (False, store_two)
   \<and> recordClick 100000 100001 store_two ''ab_cd-ef'' None (Some ''10.0.0.7'')
       = (True, store_two\<lparr>urlStore := Map_set id_one
            (entry_one\<lparr>clicks := [\<lparr>timestamp = 100001, referrer = ''direct'',
                                    ip = ''10.0.0.7'', location = ''Unknown''\<rparr>],
                        totalClicks := 1\<rparr>) (urlStore store_two)\<rparr>)"
proof -
  note r = reachable_store_two
  have "Map_get ''nosuch'' (shortcodeToUrl store_two) = None" by code_simp
  with recordClick_best_effort [OF r, of "''nosuch''" 100000 100001 None None]
  have a: "recordClick 100000 100001 store_two ''nosuch'' None None = (False, store_two)"
    by blast
  have k2: "Map_get ''abc123'' (shortcodeToUrl store_two) = Some id_two" by code_simp
  have e2: "Map_get id_two (urlStore store_two) = Some entry_two" by code_simp
  have x2: "expiryTime entry_two < 100000" by code_simp
  from recordClick_best_effort [OF r, of "''abc123''" 100000 100001 "Some ''https://google.com''" None]
    k2 e2 x2
  have b: "recordClick 100000 100001 store_two ''abc123'' (Some ''https://google.com'') None
       = (False, store_two)"
    by auto
  have k1: "Map_get ''ab_cd-ef'' (shortcodeToUrl store_two) = Some id_one" by code_simp
  have e1: "Map_get id_one (urlStore store_two) = Some entry_one" by code_simp
  have x1: "\<not> expiryTime entry_one < 100000" by code_simp
  have c1: "clicks entry_one = []" and t1: "totalClicks entry_one = 0"
    by (simp_all add: entry_one_def)
  from recordClick_best_effort [OF r, of "''ab_cd-ef''" 100000 100001 None "Some ''10.0.0.7''"]
    k1 e1 x1
  have c: "recordClick 100000 100001 store_two ''ab_cd-ef'' None (Some ''10.0.0.7'')
       = (True, store_two\<lparr>urlStore := Map_set id_one
            (entry_one\<lparr>clicks := [\<lparr>timestamp = 100001, referrer = ''direct'',
                                    ip = ''10.0.0.7'', location = ''Unknown''\<rparr>],
                        totalClicks := 1\<rparr>) (urlStore store_two)\<rparr>)"
    by (auto simp: c1 t1)
  from r a b c show ?thesis by blast
qed


text \<open>
  C8. After a successful \<^verbatim>\<open>createShortURL(u, ...)\<close>, a lookup of the shortcode at the end
  of the returned short link, made before anything else happens and not after the
  returned expiry (at the instant of the call at the latest, which is never after it),
  returns an entry whose \<^verbatim>\<open>originalURL\<close> is \<open>u\<close>; and \<open>u\<close> passed \<^verbatim>\<open>validateURL\<close>.
\<close>

theorem create_then_lookup:
  assumes "createShortURL parse nanoid8 nanoid21 now s url validity custom = (Inr r, s')"
    and "nanoid_string 21 nanoid21"
    and "t \<le> expiry r"
  shows "\<exists>code e. shortLink r = ''http://localhost:5000/'' @ code
           \<and> getURLByShortcode t s' code = Some e
           \<and> originalURL e = url
           \<and> validateURL parse url
           \<and> now \<le> expiry r"
proof -
  from createShortURL_Inr [OF assms(1)] obtain code where
    valid: "validateURL parse url" and pass: "validity_passes validity"
    and r: "r = \<lparr>shortLink = ''http://localhost:5000/'' @ code,
                 expiry = now + add_amount (default_param validity (JNum 30)) * 60000\<rparr>"
    and s': "s' = \<lparr>urlStore = Map_set nanoid21
                     \<lparr>id_entry = nanoid21, originalURL = url, shortcode = code,
                      createdAt = now + add_amount (default_param validity (JNum 30)) * 60000,
                      expiryTime = now + add_amount (default_param validity (JNum 30)) * 60000,
                      clicks = [], totalClicks = 0\<rparr> (urlStore s),
                   shortcodeToUrl = Map_set code nanoid21 (shortcodeToUrl s)\<rparr>"
    by blast
  from assms(2) have id: "nanoid21 \<noteq> []" by (auto simp: nanoid_string_def)
  from validity_passes_nonneg [OF pass] have later: "now \<le> expiry r" by (simp add: r)
  from assms(3) have "\<not> isAfter t (now + add_amount (default_param validity (JNum 30)) * 60000)"
    by (simp add: r isAfter_def)
  with id have "getURLByShortcode t s' code
      = Some \<lparr>id_entry = nanoid21, originalURL = url, shortcode = code,
              createdAt = now + add_amount (default_param validity (JNum 30)) * 60000,
              expiryTime = now + add_amount (default_param validity (JNum 30)) * 60000,
              clicks = [], totalClicks = 0\<rparr>"
    by (simp add: getURLByShortcode_def s' Map_get_Map_set)
  with valid later show ?thesis by (simp add: r)
qed

text \<open>
  \<^verbatim>\<open>createShortURL('https://example.com/page')\<close> at instant 1000, then the lookup of
  \<^verbatim>\<open>ab_cd-ef\<close> one millisecond later.
\<close>

theorem create_then_lookup_witness:
  "createShortURL sample_parse sample_draws id_one 1000 empty_store
       ''https://example.com/page'' JUndefined JUndefined
     = (Inr \<lparr>shortLink = ''http://localhost:5000/ab_cd-ef'', expiry = 1801000\<rparr>, store_one)
   \<and> nanoid_string 21 id_one
   \<and> (1001::int) \<le> expiry \<lparr>shortLink = ''http://localhost:5000/ab_cd-ef'', expiry = 1801000\<rparr>
   \<and> getURLByShortcode 1001 store_one ''ab_cd-ef'' = Some entry_one
   \<and> originalURL entry_one = ''https://example.com/page''"
proof -
  have run: "createShortURL sample_parse sample_draws id_one 1000 empty_store
       ''https://example.com/page'' JUndefined JUndefined
     = (Inr \<lparr>shortLink = ''http://localhost:5000/ab_cd-ef'', expiry = 1801000\<rparr>, store_one)"
    by code_simp
  have soon: "(1001::int) \<le> expiry \<lparr>shortLink = ''http://localhost:5000/ab_cd-ef'', expiry = 1801000\<rparr>"
    by simp
  from create_then_lookup [OF run sample_ids_ok(1) soon]
  obtain code e where "''http://localhost:5000/ab_cd-ef'' = ''http://localhost:5000/'' @ code"
    and e: "getURLByShortcode 1001 store_one code = Some e"
    and u: "originalURL e = ''https://example.com/page''"
    by auto
  then have "code = ''ab_cd-ef''" by simp
  moreover have "getURLByShortcode 1001 store_one ''ab_cd-ef'' = Some entry_one" by code_simp
  ultimately have "e = entry_one" using e by simp
  with u have "originalURL entry_one = ''https://example.com/page''" by simp
  with run sample_ids_ok(1) soon \<open>getURLByShortcode 1001 store_one ''ab_cd-ef'' = Some entry_one\<close>
  show ?thesis by blast
qed



text \<open>
  C10. A call of \<^verbatim>\<open>recordClick\<close> that returns \<^verbatim>\<open>true\<close> changes one entry, the one the
  shortcode leads to: its \<^verbatim>\<open>clicks\<close> gain one record at the end and its \<^verbatim>\<open>totalClicks\<close>
  grows by one. Its other fields, every other entry, the order of \<^verbatim>\<open>urlStore\<close> and the
  whole of \<^verbatim>\<open>shortcodeToUrl\<close> are as before.
\<close>

theorem recordClick_frame:
  assumes "recordClick now now' s code ref addr = (True, s')"
  shows "\<exists>i e e' c. Map_get code (shortcodeToUrl s) = Some i
           \<and> Map_get i (urlStore s) = Some e
           \<and> Map_get i (urlStore s') = Some e'
           \<and> clicks e' = clicks e @ [c]
           \<and> totalClicks e' = totalClicks e + 1
           \<and> id_entry e' = id_entry e
           \<and> originalURL e' = originalURL e
           \<and> shortcode e' = shortcode e
           \<and> createdAt e' = createdAt e
           \<and> expiryTime e' = expiryTime e
           \<and> (\<forall>j. j \<noteq> i \<longrightarrow> Map_get j (urlStore s') = Map_get j (urlStore s))
           \<and> map fst (urlStore s') = map fst (urlStore s)
           \<and> shortcodeToUrl s' = shortcodeToUrl s"
proof -
  from recordClick_True [OF assms] obtain i e c where
    i: "Map_get code (shortcodeToUrl s) = Some i"
    and e: "Map_get i (urlStore s) = Some e"
    and s': "s' = s\<lparr>urlStore := Map_set i
                  (e\<lparr>clicks := clicks e @ [c], totalClicks := totalClicks e + 1\<rparr>) (urlStore s)\<rparr>"
    by blast
  define e' where "e' = e\<lparr>clicks := clicks e @ [c], totalClicks := totalClicks e + 1\<rparr>"
  have stored: "Map_get i (urlStore s') = Some e'"
    by (simp add: s' e'_def Map_get_Map_set)
  have others: "\<forall>j. j \<noteq> i \<longrightarrow> Map_get j (urlStore s') = Map_get j (urlStore s)"
    by (simp add: s' Map_get_Map_set)
  have order: "map fst (urlStore s') = map fst (urlStore s)"
    using e by (simp add: s' keys_Map_set_present)
  have index: "shortcodeToUrl s' = shortcodeToUrl s"
    by (simp add: s')
  have fields: "clicks e' = clicks e @ [c] \<and> totalClicks e' = totalClicks e + 1
      \<and> id_entry e' = id_entry e \<and> originalURL e' = originalURL e \<and> shortcode e' = shortcode e
      \<and> createdAt e' = createdAt e \<and> expiryTime e' = expiryTime e"
    by (simp add: e'_def)
  from i e stored others order index fields show ?thesis by blast
qed

text \<open>
  A click on \<^verbatim>\<open>ab_cd-ef\<close> at instant 100000: the first entry gains the click, the second
  entry and the index stay.
\<close>

theorem recordClick_frame_witness:
  "recordClick 100000 100001 store_two ''ab_cd-ef'' (Some ''https://google.com'') None
     = (True, \<lparr>urlStore =
                 [(id_one, entry_one\<lparr>clicks := [\<lparr>timestamp = 100001,
                                                   referrer = ''https://google.com'',
                                                   ip = ''unknown'', location = ''Unknown''\<rparr>],
                                      totalClicks := 1\<rparr>),
                  (id_two, entry_two)],
               shortcodeToUrl = [(''ab_cd-ef'', id_one), (''abc123'', id_two)]\<rparr>)
   \<and> Map_get id_two (urlStore (snd (recordClick 100000 100001 store_two ''ab_cd-ef''
         (Some ''https://google.com'') None))) = Map_get id_two (urlStore store_two)
   \<and> shortcodeToUrl (snd (recordClick 100000 100001 store_two ''ab_cd-ef''
         (Some ''https://google.com'') None)) = shortcodeToUrl store_two"
proof -
  have run: "recordClick 100000 100001 store_two ''ab_cd-ef'' (Some ''https://google.com'') None
     = (True, \<lparr>urlStore =
                 [(id_one, entry_one\<lparr>clicks := [\<lparr>timestamp = 100001,
                                                   referrer = ''https://google.com'',
                                                   ip = ''unknown'', location = ''Unknown''\<rparr>],
                                      totalClicks := 1\<rparr>),
                  (id_two, entry_two)],
               shortcodeToUrl = [(''ab_cd-ef'', id_one), (''abc123'', id_two)]\<rparr>)"
    by code_simp
  have k: "Map_get ''ab_cd-ef'' (shortcodeToUrl store_two) = Some id_one" by code_simp
  have ne: "id_two \<noteq> id_one" by code_simp
  from recordClick_frame [OF run] k ne
  have "Map_get id_two (urlStore \<lparr>urlStore =
                 [(id_one, entry_one\<lparr>clicks := [\<lparr>timestamp = 100001,
                                                   referrer = ''https://google.com'',
                                                   ip = ''unknown'', location = ''Unknown''\<rparr>],
                                      totalClicks := 1\<rparr>),
                  (id_two, entry_two)],
               shortcodeToUrl = [(''ab_cd-ef'', id_one), (''abc123'', id_two)]\<rparr>)
          = Map_get id_two (urlStore store_two)
        \<and> shortcodeToUrl \<lparr>urlStore =
                 [(id_one, entry_one\<lparr>clicks := [\<lparr>timestamp = 100001,
                                                   referrer = ''https://google.com'',
                                                   ip = ''unknown'', location = ''Unknown''\<rparr>],
                                      totalClicks := 1\<rparr>),
                  (id_two, entry_two)],
               shortcodeToUrl = [(''ab_cd-ef'', id_one), (''abc123'', id_two)]\<rparr>
          = shortcodeToUrl store_two"
    by auto
  with run show ?thesis by simp
qed


end
